theory Spec2Isabelle
  imports Complex_Main "HOL-Library.Code_Target_Numeral"
begin

section \<open>The Bitcoin price tracker: a shallow embedding of python-gnumeric-example.py\<close>

text \<open>
  The script is one linear procedure over the Gnumeric introspection interface:
  \<^verbatim>\<open>wb_open\<close>, the title row, the scan for the first unused row, the two cell writes,
  the price format and \<^verbatim>\<open>wb_save\<close>. The functions of the script are translated from
  its source. Gnumeric, GOffice and the Python library are not part of the repository;
  the few operations the script calls are modelled below, each marked as such.
\<close>

subsection \<open>Errors\<close>

text \<open>Every exception the script can end with is a value; \<open>Inl\<close> carries it.\<close>

datatype py_error =
    IOError string
  | ValueError
  | UnboundLocalError
  | AttributeError
  | KeyError
  | URLError

subsection \<open>Cells, styles and sheets\<close>

text \<open>
  A Python float is the binary64 number it denotes, kept as an exact rational, or an
  infinity.
\<close>

datatype pyfloat = Finite rat | PosInf | NegInf

text \<open>
  What a cell holds: \<open>Entered t\<close> is the value the engine derives from the text \<open>t\<close>
  typed into the cell (\<^verbatim>\<open>cell_set_text\<close>), \<open>VFloat x\<close> a typed number
  (\<^verbatim>\<open>Gnm.Value.new_float\<close>).
\<close>

datatype gnm_value = Entered string | VFloat pyfloat

text \<open>
  A \<^verbatim>\<open>Gnm.Style\<close> is a bundle of optional elements; \<open>None\<close> is an element that the
  style does not set.
\<close>

record style =
  font_bold :: "bool option"
  format_text :: "string option"

record gnm_range =
  start_col :: int
  start_row :: int
  end_col :: int
  end_row :: int

text \<open>The mutating calls a sheet has received, oldest first.\<close>

datatype gnm_call =
    SetName string
  | SetText int int string
  | SetValue int int gnm_value
  | ApplyStyle gnm_range style

text \<open>
  A sheet: its name, its row count (\<^verbatim>\<open>sheet.props.rows\<close>), the value of each cell
  by (column, row), the style of each cell, and the journal of mutating calls.
\<close>

record sheet =
  name :: string
  rows :: int
  cells :: "int \<times> int \<Rightarrow> gnm_value option"
  styles :: "int \<times> int \<Rightarrow> style"
  journal :: "gnm_call list"

text \<open>
  Modelled from the spec: the Gnumeric sheet operations (the library is not in the
  repository). Section 3: a sheet is a grid of cells addressed by (column, row), a cell
  holds a typed value or is empty, a style is applied to an inclusive rectangular range.
  \<^verbatim>\<open>cell_get_value\<close> answers \<^verbatim>\<open>None\<close> for a cell with no value.
\<close>

definition cell_get_value :: "sheet \<Rightarrow> int \<Rightarrow> int \<Rightarrow> gnm_value option" where
  "cell_get_value s col row = cells s (col, row)"

definition cell_set_text :: "sheet \<Rightarrow> int \<Rightarrow> int \<Rightarrow> string \<Rightarrow> sheet" where
  "cell_set_text s col row t =
     s\<lparr>cells := (cells s)((col, row) \<mapsto> Entered t),
       journal := journal s @ [SetText col row t]\<rparr>"

definition cell_set_value :: "sheet \<Rightarrow> int \<Rightarrow> int \<Rightarrow> gnm_value \<Rightarrow> sheet" where
  "cell_set_value s col row v =
     s\<lparr>cells := (cells s)((col, row) \<mapsto> v),
       journal := journal s @ [SetValue col row v]\<rparr>"

definition new_float :: "pyfloat \<Rightarrow> gnm_value" where
  "new_float x = VFloat x"

definition set_name :: "sheet \<Rightarrow> string \<Rightarrow> sheet" where
  "set_name s n = s\<lparr>name := n, journal := journal s @ [SetName n]\<rparr>"

definition style_new :: style where
  "style_new = \<lparr>font_bold = None, format_text = None\<rparr>"

definition set_font_bold :: "style \<Rightarrow> int \<Rightarrow> style" where
  "set_font_bold st b = st\<lparr>font_bold := Some (b \<noteq> 0)\<rparr>"

definition set_format_text :: "style \<Rightarrow> string \<Rightarrow> style" where
  "set_format_text st f = st\<lparr>format_text := Some f\<rparr>"

definition range_init :: "int \<Rightarrow> int \<Rightarrow> int \<Rightarrow> int \<Rightarrow> gnm_range" where
  "range_init c0 r0 c1 r1 = \<lparr>start_col = c0, start_row = r0, end_col = c1, end_row = r1\<rparr>"

definition in_range :: "gnm_range \<Rightarrow> int \<times> int \<Rightarrow> bool" where
  "in_range r p =
     (start_col r \<le> fst p \<and> fst p \<le> end_col r \<and> start_row r \<le> snd p \<and> snd p \<le> end_row r)"

text \<open>The elements a style sets replace those of the cell; the others stay.\<close>

definition overlay :: "style \<Rightarrow> style \<Rightarrow> style" where
  "overlay st old =
     \<lparr>font_bold = (case font_bold st of None \<Rightarrow> font_bold old | Some b \<Rightarrow> Some b),
      format_text = (case format_text st of None \<Rightarrow> format_text old | Some f \<Rightarrow> Some f)\<rparr>"

definition apply_style :: "sheet \<Rightarrow> gnm_range \<Rightarrow> style \<Rightarrow> sheet" where
  "apply_style s r st =
     s\<lparr>styles := (\<lambda>p. if in_range r p then overlay st (styles s p) else styles s p),
       journal := journal s @ [ApplyStyle r st]\<rparr>"

subsection \<open>Workbooks and the world outside the process\<close>

record workbook =
  uri :: string
  sheets :: "sheet list"

datatype workbook_view = WorkbookView workbook

text \<open>What lies at a URI: a document the loader can read, or a file it cannot.\<close>

datatype disk_file = Document workbook | Unreadable

text \<open>
  The world: the URI of each file name (\<^verbatim>\<open>GOffice.filename_to_uri\<close>), the regular
  files by URI, and the URIs the saver can write.
\<close>

record world =
  uri_of :: "string \<Rightarrow> string"
  disk :: "string \<Rightarrow> disk_file option"
  writable :: "string \<Rightarrow> bool"

definition filename_to_uri :: "world \<Rightarrow> string \<Rightarrow> string" where
  "filename_to_uri w filename = uri_of w filename"

text \<open>
  \<^verbatim>\<open>os.path.isfile\<close>: a regular file exists at the path. Files are kept by URI, so
  the path is looked up under its URI.
\<close>

definition isfile :: "world \<Rightarrow> string \<Rightarrow> bool" where
  "isfile w filename = (disk w (filename_to_uri w filename) \<noteq> None)"

text \<open>
  Modelled from the spec: \<^verbatim>\<open>Gnm.WorkbookView.new_from_uri\<close> (section 4.1: the storage
  subsystem's URI loader). A readable document comes back in a view, carrying the URI
  it was loaded from; anything else yields no view.
\<close>

definition new_from_uri :: "world \<Rightarrow> string \<Rightarrow> workbook_view option" where
  "new_from_uri w u =
     (case disk w u of
        Some (Document wb) \<Rightarrow> Some (WorkbookView (wb\<lparr>uri := u\<rparr>))
      | _ \<Rightarrow> None)"

definition view_workbook :: "workbook_view \<Rightarrow> workbook" where
  "view_workbook wbv = (case wbv of WorkbookView wb \<Rightarrow> wb)"

text \<open>
  Modelled from the spec: \<^verbatim>\<open>Gnm.Workbook.new_with_sheets\<close> (section 4.1: a brand-new
  document with the given number of sheets). A new sheet is empty, unstyled, and has
  Gnumeric's default of 65536 rows; the default names of the sheets are not modelled,
  the script renames the one it uses.
\<close>

definition new_sheet :: "string \<Rightarrow> sheet" where
  "new_sheet n =
     \<lparr>name = n, rows = 65536, cells = (\<lambda>p. None), styles = (\<lambda>p. style_new), journal = []\<rparr>"

definition new_with_sheets :: "nat \<Rightarrow> workbook" where
  "new_with_sheets n = \<lparr>uri = [], sheets = replicate n (new_sheet ''Sheet'')\<rparr>"

definition sheet_by_index :: "workbook \<Rightarrow> int \<Rightarrow> sheet option" where
  "sheet_by_index wb i =
     (if 0 \<le> i \<and> i < int (length (sheets wb)) then Some (sheets wb ! nat i) else None)"

text \<open>
  Modelled from the spec: the save operation, \<^verbatim>\<open>GOffice.FileSaver.for_file_name\<close>
  followed by \<^verbatim>\<open>WorkbookView.save_as\<close> (sections 4.6 and 7). A save that succeeds
  stores the document at the URI and reports \<open>True\<close>; a save that fails reports
  \<open>False\<close> and leaves the file at the URI as it was.
\<close>

definition save_as :: "world \<Rightarrow> workbook_view \<Rightarrow> string \<Rightarrow> bool \<times> world" where
  "save_as w wbv u =
     (if writable w u
      then (True, w\<lparr>disk := (disk w)(u \<mapsto> Document (view_workbook wbv))\<rparr>)
      else (False, w))"

subsection \<open>wb\_open and wb\_save\<close>

text \<open>
  \<^verbatim>\<open>wb_open\<close>, lines 52 to 67. A loader that yields no view leaves \<^verbatim>\<open>wbv\<close> as
  \<^verbatim>\<open>None\<close>, and \<^verbatim>\<open>wbv.props\<close> raises.
\<close>

definition wb_open :: "world \<Rightarrow> string \<Rightarrow> (py_error + workbook) \<times> world" where
  "wb_open w filename =
     (let u = filename_to_uri w filename in
      if isfile w filename then
        (case new_from_uri w u of
           None \<Rightarrow> (Inl AttributeError, w)
         | Some wbv \<Rightarrow> (Inr (view_workbook wbv), w))
      else (Inr ((new_with_sheets 1)\<lparr>uri := u\<rparr>), w))"

text \<open>\<^verbatim>\<open>wb_save\<close>, lines 70 to 84.\<close>

definition target_uri :: "world \<Rightarrow> workbook \<Rightarrow> string option \<Rightarrow> string" where
  "target_uri w wb filename = (case filename of None \<Rightarrow> uri wb | Some f \<Rightarrow> filename_to_uri w f)"

definition wb_save :: "world \<Rightarrow> workbook \<Rightarrow> string option \<Rightarrow> (py_error + unit) \<times> world" where
  "wb_save w wb filename =
     (let u = target_uri w wb filename;
          wbv = WorkbookView wb;
          (ok, w') = save_as w wbv u
      in if \<not> ok then (Inl (IOError ''Failed to save workbook''), w') else (Inr (), w'))"

subsection \<open>The title row and the first unused row\<close>

text \<open>Lines 95 and 96: the first sheet gets its title.\<close>

definition ensure_name :: "sheet \<Rightarrow> sheet" where
  "ensure_name s = (if name s \<noteq> ''Bitcoin Prices'' then set_name s ''Bitcoin Prices'' else s)"

text \<open>Lines 102 to 113: the title row is written and made bold when B2 holds no value.\<close>

definition schema_ensure :: "sheet \<Rightarrow> sheet" where
  "schema_ensure s =
     (if cell_get_value s 1 1 = None then
        (let s1 = cell_set_text s 1 1 ''Timestamp (UTC)'';
             s2 = cell_set_text s1 2 1 ''BTC Price (USD)'';
             st = set_font_bold style_new 1;
             r = range_init 1 1 2 1
         in apply_style s2 r st)
      else s)"

text \<open>Python 2's \<^verbatim>\<open>range(a, b)\<close>: the list of the integers from \<open>a\<close> up to \<open>b - 1\<close>.\<close>

definition py_range :: "int \<Rightarrow> int \<Rightarrow> int list" where
  "py_range a b = [a..b - 1]"

text \<open>
  Lines 122 to 124. The loop variable \<^verbatim>\<open>row\<close> is bound at the start of each
  iteration and keeps its value after the loop; \<open>None\<close> is the variable still unbound,
  which is what a loop over an empty range leaves.
\<close>

fun for_rows :: "sheet \<Rightarrow> int list \<Rightarrow> int option \<Rightarrow> int option" where
  "for_rows s [] row = row"
| "for_rows s (r # rs) row =
     (if cell_get_value s 1 r = None then Some r else for_rows s rs (Some r))"

definition find_row :: "sheet \<Rightarrow> int option" where
  "find_row s = for_rows s (py_range 2 (rows s)) None"

subsection \<open>The timestamp\<close>

text \<open>The fields of a Python \<^verbatim>\<open>datetime\<close> that the format reads.\<close>

record datetime =
  dt_year :: nat
  dt_month :: nat
  dt_day :: nat
  dt_hour :: nat
  dt_minute :: nat
  dt_second :: nat

definition is_digit :: "char \<Rightarrow> bool" where
  "is_digit c = (c \<in> set ''0123456789'')"

text \<open>The value of a digit is its place in the row of digits, and back.\<close>

definition digit_val :: "char \<Rightarrow> nat" where
  "digit_val c = length (takeWhile (\<lambda>d. d \<noteq> c) ''0123456789'')"

definition digit_chr :: "nat \<Rightarrow> char" where
  "digit_chr n = ''0123456789'' ! n"

fun digits_value :: "string \<Rightarrow> nat \<Rightarrow> nat option" where
  "digits_value [] acc = Some acc"
| "digits_value (c # cs) acc =
     (if is_digit c then digits_value cs (10 * acc + digit_val c) else None)"

definition read_nat :: "string \<Rightarrow> nat option" where
  "read_nat s = (if s = [] then None else digits_value s 0)"

definition is_leap :: "nat \<Rightarrow> bool" where
  "is_leap y = (y mod 4 = 0 \<and> (y mod 100 \<noteq> 0 \<or> y mod 400 = 0))"

definition days_in_month :: "nat \<Rightarrow> nat \<Rightarrow> nat" where
  "days_in_month y m =
     (if m = 2 then (if is_leap y then 29 else 28)
      else if m = 4 \<or> m = 6 \<or> m = 9 \<or> m = 11 then 30 else 31)"

text \<open>
  Line 152 hands the timestamp to \<^verbatim>\<open>dateutil.parser.parse\<close>, a library that is not
  part of the repository. The definitions from here to \<open>dateutil_parse\<close> say which
  layouts the parser is taken to read, and what it reads in them.

  The zone designator of an ISO-8601 timestamp: none, \<open>Z\<close>, or a sign followed by
  \<open>hh\<close>, \<open>hhmm\<close> or \<open>hh:mm\<close>.
\<close>

definition is_zone :: "string \<Rightarrow> bool" where
  "is_zone z =
     (z = [] \<or> z = ''Z'' \<or>
      (take 1 z = ''+'' \<or> take 1 z = ''-'') \<and>
      (let ds = drop 1 z in
         (length ds = 2 \<and> list_all is_digit ds) \<or>
         (length ds = 4 \<and> list_all is_digit ds) \<or>
         (length ds = 5 \<and> ds ! 2 = CHR '':'' \<and> list_all is_digit (take 2 ds @ drop 3 ds))))"

text \<open>The number written in the \<open>n\<close> characters from position \<open>i\<close> on.\<close>

definition read_field :: "nat \<Rightarrow> nat \<Rightarrow> string \<Rightarrow> nat option" where
  "read_field i n s = (if length s < i + n then None else read_nat (take n (drop i s)))"

text \<open>
  A calendar date in the extended format \<open>YYYY-MM-DD\<close> or the basic format
  \<open>YYYYMMDD\<close>: year, month and day, and what follows the date.
\<close>

definition parse_date :: "string \<Rightarrow> ((nat \<times> nat \<times> nat) \<times> string) option" where
  "parse_date s =
     (if 10 \<le> length s \<and> s ! 4 = CHR ''-'' \<and> s ! 7 = CHR ''-'' then
        (case (read_field 0 4 s, read_field 5 2 s, read_field 8 2 s) of
           (Some y, Some mo, Some d) \<Rightarrow> Some ((y, mo, d), drop 10 s)
         | _ \<Rightarrow> None)
      else
        (case (read_field 0 4 s, read_field 4 2 s, read_field 6 2 s) of
           (Some y, Some mo, Some d) \<Rightarrow> Some ((y, mo, d), drop 8 s)
         | _ \<Rightarrow> None))"

text \<open>A decimal fraction of the seconds is read and dropped.\<close>

definition skip_fraction :: "string \<Rightarrow> string option" where
  "skip_fraction s =
     (if take 1 s = ''.'' then
        (if takeWhile is_digit (drop 1 s) = [] then None
         else Some (dropWhile is_digit (drop 1 s)))
      else Some s)"

text \<open>
  A time of day in the extended format \<open>HH:MM:SS\<close> or \<open>HH:MM\<close>, or the basic
  format \<open>HHMMSS\<close>, \<open>HHMM\<close> or \<open>HH\<close>, told apart by the number of leading digits:
  hour, minute and second (zero when they are not written), and what follows the time.
\<close>

definition parse_time :: "string \<Rightarrow> ((nat \<times> nat \<times> nat) \<times> string) option" where
  "parse_time s =
     (if 5 \<le> length s \<and> s ! 2 = CHR '':'' then
        (if 8 \<le> length s \<and> s ! 5 = CHR '':'' then
           (case (read_field 0 2 s, read_field 3 2 s, read_field 6 2 s,
                  skip_fraction (drop 8 s)) of
              (Some h, Some mi, Some se, Some rest) \<Rightarrow> Some ((h, mi, se), rest)
            | _ \<Rightarrow> None)
         else
           (case (read_field 0 2 s, read_field 3 2 s) of
              (Some h, Some mi) \<Rightarrow> Some ((h, mi, 0), drop 5 s)
            | _ \<Rightarrow> None))
      else if length (takeWhile is_digit s) = 6 then
        (case (read_field 0 2 s, read_field 2 2 s, read_field 4 2 s,
               skip_fraction (drop 6 s)) of
           (Some h, Some mi, Some se, Some rest) \<Rightarrow> Some ((h, mi, se), rest)
         | _ \<Rightarrow> None)
      else if length (takeWhile is_digit s) = 4 then
        (case (read_field 0 2 s, read_field 2 2 s) of
           (Some h, Some mi) \<Rightarrow> Some ((h, mi, 0), drop 4 s)
         | _ \<Rightarrow> None)
      else if length (takeWhile is_digit s) = 2 then
        (case read_field 0 2 s of
           Some h \<Rightarrow> Some ((h, 0, 0), drop 2 s)
         | None \<Rightarrow> None)
      else None)"

text \<open>
  An ISO-8601 timestamp: a calendar date alone (the time is then midnight), or a
  calendar date, \<open>T\<close> or a blank, a time of day, and a zone designator. The fields are
  read as written; the zone designator moves none of them.
\<close>

definition parse_iso8601 :: "string \<Rightarrow> datetime option" where
  "parse_iso8601 s =
     (case parse_date s of
        None \<Rightarrow> None
      | Some ((y, mo, d), r1) \<Rightarrow>
          (if r1 = [] then
             Some \<lparr>dt_year = y, dt_month = mo, dt_day = d,
                   dt_hour = 0, dt_minute = 0, dt_second = 0\<rparr>
           else if take 1 r1 = ''T'' \<or> take 1 r1 = '' '' then
             (case parse_time (drop 1 r1) of
                None \<Rightarrow> None
              | Some ((h, mi, se), r2) \<Rightarrow>
                  if is_zone r2
                  then Some \<lparr>dt_year = y, dt_month = mo, dt_day = d,
                             dt_hour = h, dt_minute = mi, dt_second = se\<rparr>
                  else None)
           else None))"

text \<open>
  The layout of the quote service's own \<^verbatim>\<open>updated\<close> field, as in
  \<^verbatim>\<open>Jun 1, 2021 14:23:00 UTC\<close>: the month by name, the day, a comma, the year, the
  time and the zone \<^verbatim>\<open>UTC\<close>.
\<close>

definition month_names :: "string list" where
  "month_names = [''Jan'', ''Feb'', ''Mar'', ''Apr'', ''May'', ''Jun'',
                  ''Jul'', ''Aug'', ''Sep'', ''Oct'', ''Nov'', ''Dec'']"

definition month_number :: "string \<Rightarrow> nat option" where
  "month_number n =
     (if n \<in> set month_names then Some (Suc (length (takeWhile (\<lambda>m. m \<noteq> n) month_names)))
      else None)"

definition parse_feed :: "string \<Rightarrow> datetime option" where
  "parse_feed s =
     (let r1 = drop 4 s;
          day = takeWhile is_digit r1;
          r2 = dropWhile is_digit r1;
          r3 = drop 2 r2
      in if take 1 (drop 3 s) \<noteq> '' '' \<or> 2 < length day \<or> take 2 r2 \<noteq> '', '' \<or>
            take 1 (drop 4 r3) \<noteq> '' ''
         then None
         else
           (case (month_number (take 3 s), read_nat day, read_field 0 4 r3,
                  parse_time (drop 5 r3)) of
              (Some mo, Some d, Some y, Some ((h, mi, se), r4)) \<Rightarrow>
                if r4 = '' UTC''
                then Some \<lparr>dt_year = y, dt_month = mo, dt_day = d,
                           dt_hour = h, dt_minute = mi, dt_second = se\<rparr>
                else None
            | _ \<Rightarrow> None))"

text \<open>
  What a Python \<^verbatim>\<open>datetime\<close> can hold: a year from 1 to 9999, a day of the month, an
  hour up to 23, a minute and a second up to 59. Anything else is a \<open>ValueError\<close>.
\<close>

definition checked :: "datetime \<Rightarrow> py_error + datetime" where
  "checked dt =
     (if 1 \<le> dt_year dt \<and> dt_year dt \<le> 9999 \<and> 1 \<le> dt_month dt \<and> dt_month dt \<le> 12 \<and>
         1 \<le> dt_day dt \<and> dt_day dt \<le> days_in_month (dt_year dt) (dt_month dt) \<and>
         dt_hour dt \<le> 23 \<and> dt_minute dt \<le> 59 \<and> dt_second dt \<le> 59
      then Inr dt else Inl ValueError)"

text \<open>
  Modelled from the spec: \<^verbatim>\<open>dateutil.parser.parse\<close> (section 4.5: the fetched
  timestamp is parsed into a calendar/time value). A string that starts with a digit is
  read as an ISO-8601 timestamp, any other in the layout of the quote service. A field
  of the time that is not written is zero. Week dates, ordinal dates, dates without the
  day or the month (dateutil fills these from the current date) and the further layouts
  that dateutil reads are not modelled; a string outside the layouts above is a
  \<open>ValueError\<close> here.
\<close>

definition dateutil_parse :: "string \<Rightarrow> py_error + datetime" where
  "dateutil_parse s =
     (case (if list_all is_digit (take 1 s) then parse_iso8601 s else parse_feed s) of
        None \<Rightarrow> Inl ValueError
      | Some dt \<Rightarrow> checked dt)"

text \<open>A number in decimal, and in two digits with a leading zero.\<close>

fun str_nat :: "nat \<Rightarrow> string" where
  "str_nat n = (if n < 10 then [digit_chr n] else str_nat (n div 10) @ [digit_chr (n mod 10)])"

declare str_nat.simps [simp del]

definition pad2 :: "nat \<Rightarrow> string" where
  "pad2 n = (if n < 10 then CHR ''0'' # str_nat n else str_nat n)"

text \<open>
  Modelled from the spec: \<^verbatim>\<open>strftime\<close> (section 4.5: 24-hour, zero-padded, no zone).
  The directives of the script's format string are interpreted; any other directive is
  copied as it stands.
\<close>

definition directive :: "datetime \<Rightarrow> char \<Rightarrow> string" where
  "directive dt c =
     (if c = CHR ''Y'' then str_nat (dt_year dt)
      else if c = CHR ''m'' then pad2 (dt_month dt)
      else if c = CHR ''d'' then pad2 (dt_day dt)
      else if c = CHR ''H'' then pad2 (dt_hour dt)
      else if c = CHR ''M'' then pad2 (dt_minute dt)
      else if c = CHR ''S'' then pad2 (dt_second dt)
      else [CHR ''%'', c])"

fun strftime :: "datetime \<Rightarrow> string \<Rightarrow> string" where
  "strftime dt [] = []"
| "strftime dt [c] = [c]"
| "strftime dt (c # d # fs) =
     (if c = CHR ''%'' then directive dt d @ strftime dt fs else c # strftime dt (d # fs))"

text \<open>
  The script runs under Python 2 (it imports \<^verbatim>\<open>urllib2\<close>), whose
  \<^verbatim>\<open>datetime.strftime\<close> refuses a year before 1900 with a \<open>ValueError\<close>.
\<close>

definition py_strftime :: "datetime \<Rightarrow> string \<Rightarrow> py_error + string" where
  "py_strftime dt fmt = (if dt_year dt < 1900 then Inl ValueError else Inr (strftime dt fmt))"

text \<open>Lines 152 to 158: the timestamp is parsed, reformatted and typed into column 1.\<close>

definition write_timestamp :: "sheet \<Rightarrow> int option \<Rightarrow> string \<Rightarrow> py_error + sheet" where
  "write_timestamp s row updated =
     (case dateutil_parse updated of
        Inl e \<Rightarrow> Inl e
      | Inr tdate \<Rightarrow>
          (case row of
             None \<Rightarrow> Inl UnboundLocalError
           | Some r \<Rightarrow>
               (case py_strftime tdate ''%Y-%m-%d %H:%M:%S'' of
                  Inl e \<Rightarrow> Inl e
                | Inr t \<Rightarrow> Inr (cell_set_text s 1 r t))))"

subsection \<open>The price\<close>

text \<open>The two entries of \<^verbatim>\<open>locale.localeconv()\<close> that \<^verbatim>\<open>locale.atof\<close> reads.\<close>

record localeconv =
  thousands_sep :: string
  decimal_point :: string

text \<open>
  \<^verbatim>\<open>str.replace(old, new)\<close> for a non-empty \<open>old\<close>: every occurrence, left to right,
  without overlap. The counter is the number of characters of a matched occurrence still
  to be skipped.
\<close>

fun replace_from :: "string \<Rightarrow> string \<Rightarrow> nat \<Rightarrow> string \<Rightarrow> string" where
  "replace_from old new k [] = []"
| "replace_from old new (Suc k) (c # cs) = replace_from old new k cs"
| "replace_from old new 0 (c # cs) =
     (if take (length old) (c # cs) = old
      then new @ replace_from old new (length old - 1) cs
      else c # replace_from old new 0 cs)"

definition str_replace :: "string \<Rightarrow> string \<Rightarrow> string \<Rightarrow> string" where
  "str_replace old new s = replace_from old new 0 s"

text \<open>
  A decimal numeral: an optional sign, digits, and at most one point with digits on
  either side; the result is the sign, the value of all the digits, and the number of
  digits after the point.
\<close>

definition parse_decimal :: "string \<Rightarrow> (bool \<times> nat \<times> nat) option" where
  "parse_decimal s =
     (let (neg, body) =
            (case s of
               [] \<Rightarrow> (False, [])
             | c # cs \<Rightarrow>
                 if c = CHR ''-'' then (True, cs)
                 else if c = CHR ''+'' then (False, cs) else (False, s));
          ip = takeWhile (\<lambda>c. c \<noteq> CHR ''.'') body;
          fp = drop 1 (dropWhile (\<lambda>c. c \<noteq> CHR ''.'') body)
      in if ip = [] \<and> fp = [] then None
         else (case digits_value (ip @ fp) 0 of
                 None \<Rightarrow> None
               | Some n \<Rightarrow> Some (neg, n, length fp)))"

text \<open>The quotient \<open>p / q\<close> rounded to the nearest natural number, ties to even.\<close>

definition round_half_even :: "nat \<Rightarrow> nat \<Rightarrow> nat" where
  "round_half_even p q =
     (let d = p div q; r = p mod q
      in if 2 * r < q then d else if q < 2 * r then d + 1
         else if even d then d else d + 1)"

fun bit_length :: "nat \<Rightarrow> nat" where
  "bit_length n = (if n = 0 then 0 else Suc (bit_length (n div 2)))"

declare bit_length.simps [simp del]

text \<open>The integer part of the binary logarithm of \<open>p / q\<close>, for positive \<open>p\<close> and \<open>q\<close>.\<close>

definition floor_log2 :: "nat \<Rightarrow> nat \<Rightarrow> int" where
  "floor_log2 p q =
     (let d = int (bit_length p) - int (bit_length q)
      in if (if 0 \<le> d then q * 2 ^ nat d \<le> p else q \<le> p * 2 ^ nat (- d)) then d else d - 1)"

definition scale2 :: "int \<Rightarrow> rat" where
  "scale2 e = (if 0 \<le> e then 2 ^ nat e else 1 / 2 ^ nat (- e))"

text \<open>
  The binary64 number nearest to \<open>p / q\<close> (\<open>q\<close> positive), ties to even: 53 bits of
  mantissa in the binade of \<open>p / q\<close>, the subnormal numbers sharing the exponent -1022,
  and an infinity from \<open>2 ^ 1024\<close> on.
\<close>

definition round_binary64 :: "nat \<Rightarrow> nat \<Rightarrow> pyfloat" where
  "round_binary64 p q =
     (if p = 0 then Finite 0
      else
        (let e = max (floor_log2 p q) (- 1022);
             sh = 52 - e;
             m = (if 0 \<le> sh then round_half_even (p * 2 ^ nat sh) q
                  else round_half_even p (q * 2 ^ nat (- sh)))
         in if 1023 < e \<or> (e = 1023 \<and> 2 ^ 53 \<le> m) then PosInf
            else Finite (of_nat m * scale2 (e - 52))))"

definition negate :: "pyfloat \<Rightarrow> pyfloat" where
  "negate x = (case x of Finite r \<Rightarrow> Finite (- r) | PosInf \<Rightarrow> NegInf | NegInf \<Rightarrow> PosInf)"

text \<open>
  Modelled from the spec: Python's \<^verbatim>\<open>float\<close> on a decimal numeral (section 4.5: a
  floating-point value), correctly rounded. Exponents, \<^verbatim>\<open>inf\<close>, \<^verbatim>\<open>nan\<close> and
  surrounding blanks are not modelled; a string that is no decimal numeral is a
  \<open>ValueError\<close>.
\<close>

definition py_float :: "string \<Rightarrow> py_error + pyfloat" where
  "py_float s =
     (case parse_decimal s of
        None \<Rightarrow> Inl ValueError
      | Some (neg, n, k) \<Rightarrow>
          Inr (if neg then negate (round_binary64 n (10 ^ k)) else round_binary64 n (10 ^ k)))"

text \<open>
  Modelled from the spec: \<^verbatim>\<open>locale.atof\<close> (section 4.5: locale-aware numeric parsing
  that handles grouping separators). The grouping separator of the locale is removed,
  the decimal point of the locale becomes a dot, and the rest is read as a float.
\<close>

definition atof :: "localeconv \<Rightarrow> string \<Rightarrow> py_error + pyfloat" where
  "atof loc string =
     (let ts = thousands_sep loc;
          s1 = (if ts \<noteq> [] then str_replace ts [] string else string);
          dd = decimal_point loc;
          s2 = (if dd \<noteq> [] then str_replace dd ''.'' s1 else s1)
      in py_float s2)"

text \<open>
  Lines 165 to 167: the rate is parsed and stored in column 2 as a float value. The
  arguments are evaluated from the left, so \<^verbatim>\<open>row\<close> is read before the rate is
  parsed. The locale is the one that \<^verbatim>\<open>locale.setlocale(locale.LC_NUMERIC, '')\<close>
  takes from the environment.
\<close>

definition write_price :: "sheet \<Rightarrow> int option \<Rightarrow> localeconv \<Rightarrow> string \<Rightarrow> py_error + sheet" where
  "write_price s row loc rate =
     (case row of
        None \<Rightarrow> Inl UnboundLocalError
      | Some r \<Rightarrow>
          (case atof loc rate of
             Inl e \<Rightarrow> Inl e
           | Inr x \<Rightarrow> Inr (cell_set_value s 2 r (new_float x))))"

text \<open>Lines 171 to 175: the price cell gets its number format.\<close>

definition format_price :: "sheet \<Rightarrow> int option \<Rightarrow> py_error + sheet" where
  "format_price s row =
     (let st = set_format_text style_new ''$0,000'' in
      case row of
        None \<Rightarrow> Inl UnboundLocalError
      | Some r \<Rightarrow> Inr (apply_style s (range_init 2 r 2 r) st))"





subsection \<open>The workflow\<close>

text \<open>
  The two fields of the fetched payload that the script reads,
  \<^verbatim>\<open>data['time']['updated']\<close> and \<^verbatim>\<open>data['bpi']['USD']['rate']\<close>; \<open>None\<close> is
  a key that the payload lacks.
\<close>

record quote =
  time_updated :: "string option"
  usd_rate :: "string option"

text \<open>
  Lines 152 to 175 on the sheet, with the state of the sheet when an error ends them.
  A payload without the time raises \<open>KeyError\<close> at line 152, before any write; a
  payload without the rate raises it at line 167, after the timestamp is written (line
  158 has read \<^verbatim>\<open>row\<close> by then, so the lookup is the first thing that can fail
  there).
\<close>

definition write_row :: "sheet \<Rightarrow> int option \<Rightarrow> quote \<Rightarrow> localeconv \<Rightarrow> (py_error + unit) \<times> sheet" where
  "write_row s row q loc =
     (case time_updated q of
        None \<Rightarrow> (Inl KeyError, s)
      | Some updated \<Rightarrow>
          (case write_timestamp s row updated of
             Inl e \<Rightarrow> (Inl e, s)
           | Inr s1 \<Rightarrow>
               (case usd_rate q of
                  None \<Rightarrow> (Inl KeyError, s1)
                | Some rate \<Rightarrow>
                    (case write_price s1 row loc rate of
                       Inl e \<Rightarrow> (Inl e, s1)
                     | Inr s2 \<Rightarrow>
                         (case format_price s2 row of
                            Inl e \<Rightarrow> (Inl e, s2)
                          | Inr s3 \<Rightarrow> (Inr (), s3))))))"

text \<open>
  Lines 95 to 175 on the first sheet. The response of the quote service (lines 134 to
  142) is an input: the payload, or the error the fetch ended with.
\<close>

definition update_sheet :: "sheet \<Rightarrow> py_error + quote \<Rightarrow> localeconv \<Rightarrow> (py_error + unit) \<times> sheet" where
  "update_sheet s response loc =
     (let s1 = ensure_name s;
          s2 = schema_ensure s1;
          row = find_row s2
      in case response of
           Inl e \<Rightarrow> (Inl e, s2)
         | Inr q \<Rightarrow> write_row s2 row q loc)"

text \<open>
  \<^verbatim>\<open>main\<close>, lines 86 to 186: the outcome, the document in memory when the run ends
  (none if it was never opened), and the world. The sheet is an object of the workbook,
  so what the run does to it is done to the workbook. \<^verbatim>\<open>gnm_init\<close> only creates the
  reporting and I/O contexts that the library calls are handed, and has no part here.
\<close>

definition main :: "world \<Rightarrow> py_error + quote \<Rightarrow> localeconv \<Rightarrow> (py_error + unit) \<times> workbook option \<times> world" where
  "main w response loc =
     (case wb_open w ''btcprices.gnumeric'' of
        (Inl e, w1) \<Rightarrow> (Inl e, None, w1)
      | (Inr wb, w1) \<Rightarrow>
          (case sheet_by_index wb 0 of
             None \<Rightarrow> (Inl AttributeError, Some wb, w1)
           | Some sheet0 \<Rightarrow>
               (case update_sheet sheet0 response loc of
                  (Inl e, sheet1) \<Rightarrow> (Inl e, Some (wb\<lparr>sheets := (sheets wb)[0 := sheet1]\<rparr>), w1)
                | (Inr u, sheet1) \<Rightarrow>
                    (let wb1 = wb\<lparr>sheets := (sheets wb)[0 := sheet1]\<rparr>;
                         (r, w2) = wb_save w1 wb1 None
                     in (r, Some wb1, w2)))))"

subsection \<open>Sheets used as concrete inputs\<close>

text \<open>
  A sheet of \<open>n\<close> rows whose columns 1 and 2 hold a value in each of the rows 1 to \<open>k\<close>
  (the title row and \<open>k - 1\<close> data rows) and nowhere else.
\<close>

definition sheet_with_rows :: "int \<Rightarrow> int \<Rightarrow> sheet" where
  "sheet_with_rows n k =
     \<lparr>name = ''Bitcoin Prices'', rows = n,
      cells = (\<lambda>p. if (fst p = 1 \<or> fst p = 2) \<and> 1 \<le> snd p \<and> snd p \<le> k
                   then Some (Entered ''x'') else None),
      styles = (\<lambda>p. style_new), journal = []\<rparr>"

text \<open>
  A world whose working directory holds no file: \<open>can_write\<close> says whether the saver
  can write there.
\<close>

definition empty_world :: "bool \<Rightarrow> world" where
  "empty_world can_write =
     \<lparr>uri_of = (\<lambda>f. ''file:///home/user/'' @ f), disk = (\<lambda>u. None),
      writable = (\<lambda>u. can_write)\<rparr>"

text \<open>The same world with a file at the tracker's path.\<close>

definition world_with :: "bool \<Rightarrow> disk_file \<Rightarrow> world" where
  "world_with can_write f =
     (empty_world can_write)
       \<lparr>disk := (\<lambda>u. if u = ''file:///home/user/btcprices.gnumeric'' then Some f else None)\<rparr>"

definition en_US :: localeconv where
  "en_US = \<lparr>thousands_sep = '','', decimal_point = ''.''\<rparr>"

definition demo_quote :: quote where
  "demo_quote =
     \<lparr>time_updated = Some ''2021-06-01T14:23:05Z'', usd_rate = Some ''12,345.67''\<rparr>"

text \<open>A sheet of 128 rows that is empty but for a value in column 2 of row 3.\<close>

definition stray_sheet :: sheet where
  "stray_sheet =
     \<lparr>name = ''Bitcoin Prices'', rows = 128,
      cells = (\<lambda>p. if p = (2, 3) then Some (Entered ''x'') else None),
      styles = (\<lambda>p. style_new), journal = []\<rparr>"

text \<open>
  A sheet of 128 rows with the title row and three data rows, and below them a row,
  row 5, that holds a value in column 2 only.
\<close>

definition gap_sheet :: sheet where
  "gap_sheet =
     \<lparr>name = ''Bitcoin Prices'', rows = 128,
      cells = (\<lambda>p. if (fst p = 1 \<and> 1 \<le> snd p \<and> snd p \<le> 4) \<or>
                      (fst p = 2 \<and> 1 \<le> snd p \<and> snd p \<le> 5)
                   then Some (Entered ''x'') else None),
      styles = (\<lambda>p. style_new), journal = []\<rparr>"

section \<open>The first unused row\<close>

lemma for_rows_break:
  assumes "\<forall>r\<in>set xs. cell_get_value s 1 r \<noteq> None"
      and "cell_get_value s 1 k = None"
  shows "for_rows s (xs @ k # ys) row = Some k"
  using assms by (induction xs arbitrary: row) auto

lemma for_rows_exhaust:
  assumes "\<forall>r\<in>set xs. cell_get_value s 1 r \<noteq> None"
      and "xs \<noteq> []"
  shows "for_rows s xs row = Some (last xs)"
  using assms by (induction xs arbitrary: row) auto

lemma find_row_first_empty:
  assumes "2 \<le> k" and "k < rows s"
      and "\<forall>r. 2 \<le> r \<and> r < k \<longrightarrow> cell_get_value s 1 r \<noteq> None"
      and "cell_get_value s 1 k = None"
  shows "find_row s = Some k"
proof -
  have split: "py_range 2 (rows s) = [2..k - 1] @ k # [k + 1..rows s - 1]"
    unfolding py_range_def using assms(1,2) by (intro upto_split3) auto
  have "\<forall>r\<in>set [2..k - 1]. cell_get_value s 1 r \<noteq> None"
    using assms(3) by auto
  then show ?thesis
    unfolding find_row_def split using assms(4) by (rule for_rows_break)
qed

lemma find_row_exhausted:
  assumes "2 < rows s"
      and "\<forall>r. 2 \<le> r \<and> r < rows s \<longrightarrow> cell_get_value s 1 r \<noteq> None"
  shows "find_row s = Some (rows s - 1)"
proof -
  have ne: "py_range 2 (rows s) \<noteq> []"
    unfolding py_range_def using assms(1) by simp
  have "[2..rows s - 1] = [2..rows s - 1 - 1] @ [rows s - 1]"
    using assms(1) by (intro upto_rec2) simp
  then have lst: "last (py_range 2 (rows s)) = rows s - 1"
    unfolding py_range_def by (metis last_snoc)
  have "\<forall>r\<in>set (py_range 2 (rows s)). cell_get_value s 1 r \<noteq> None"
    unfolding py_range_def using assms(2) by auto
  then have "for_rows s (py_range 2 (rows s)) None = Some (last (py_range 2 (rows s)))"
    using ne by (rule for_rows_exhaust)
  then show ?thesis
    unfolding find_row_def lst .
qed

lemma find_row_unbound:
  assumes "rows s \<le> 2"
  shows "find_row s = None"
  using assms by (simp add: find_row_def py_range_def)

text \<open>
  C1, as amended. When column 1 of a sheet holds a value in each of the rows 2 to
  \<open>2 + N - 1\<close>, holds none in row \<open>2 + N\<close>, and row \<open>2 + N\<close> is a row of the sheet
  (\<open>2 + N < rows\<close>), the scan from row 2 ends with the row index \<open>2 + N\<close>, the first
  row whose column-1 cell holds no value.
\<close>

theorem find_row_after_filled_rows:
  assumes "\<forall>r. 2 \<le> r \<and> r < 2 + int N \<longrightarrow> cell_get_value s 1 r \<noteq> None"
      and "cell_get_value s 1 (2 + int N) = None"
      and "2 + int N < rows s"
  shows "find_row s = Some (2 + int N)"
  using assms by (intro find_row_first_empty) auto

theorem find_row_after_filled_rows_witness:
  "\<not> (\<exists>r. 2 \<le> r \<and> r < 2 + int 3 \<and> cell_get_value (sheet_with_rows 128 4) 1 r = None)
   \<and> cell_get_value (sheet_with_rows 128 4) 1 (2 + int 3) = None
   \<and> 2 + int 3 < rows (sheet_with_rows 128 4)
   \<and> find_row (sheet_with_rows 128 4) = Some 5"
  using find_row_after_filled_rows [of 3 "sheet_with_rows 128 4"]
  by (simp add: sheet_with_rows_def cell_get_value_def)

text \<open>
  C1 as stated fails on a sheet that is full. In a sheet of 128 rows whose column 1
  holds a value in every row from 2 to 127, the rows 2 to \<open>2 + 126 - 1\<close> are filled and
  row \<open>2 + 126 = 128\<close>, which lies past the last row, holds no value; the loop runs out
  and leaves 127, not 128.
\<close>

theorem find_row_full_sheet_counterexample:
  "\<not> (\<exists>r. 2 \<le> r \<and> r < 2 + int 126 \<and> cell_get_value (sheet_with_rows 128 127) 1 r = None)
   \<and> cell_get_value (sheet_with_rows 128 127) 1 (2 + int 126) = None
   \<and> find_row (sheet_with_rows 128 127) = Some 127
   \<and> find_row (sheet_with_rows 128 127) \<noteq> Some (2 + int 126)"
proof -
  have "find_row (sheet_with_rows 128 127) = Some (rows (sheet_with_rows 128 127) - 1)"
    by (rule find_row_exhausted) (simp_all add: sheet_with_rows_def cell_get_value_def)
  then show ?thesis
    by (simp add: sheet_with_rows_def cell_get_value_def)
qed

section \<open>The title row\<close>

lemma schema_ensure_sentinel:
  "cell_get_value (schema_ensure s) 1 1 \<noteq> None"
  by (simp add: schema_ensure_def cell_get_value_def cell_set_text_def apply_style_def Let_def)

lemma schema_ensure_initialised:
  assumes "cell_get_value s 1 1 \<noteq> None"
  shows "schema_ensure s = s"
  using assms by (cases "cell_get_value s 1 1") (simp_all add: schema_ensure_def)

text \<open>
  C2. Running the title-row step twice leaves the sheet that running it once leaves:
  the same cells (so the same title row), the same styles and the same journal of
  writes. On a sheet whose cell (1, 1) already holds a value the step returns the sheet
  as it is, with nothing added to the journal; on a sheet whose cell (1, 1) holds none,
  one run adds the two labels and the bold style, and a second run adds nothing.
\<close>

theorem schema_ensure_idempotent:
  "schema_ensure (schema_ensure s) = schema_ensure s
   \<and> (cell_get_value s 1 1 \<noteq> None \<longrightarrow>
        schema_ensure s = s \<and> journal (schema_ensure s) = journal s)
   \<and> (cell_get_value s 1 1 = None \<longrightarrow>
        journal (schema_ensure (schema_ensure s)) =
          journal s @ [SetText 1 1 ''Timestamp (UTC)'', SetText 2 1 ''BTC Price (USD)'',
                       ApplyStyle (range_init 1 1 2 1) (set_font_bold style_new 1)])"
proof (intro conjI impI)
  show twice: "schema_ensure (schema_ensure s) = schema_ensure s"
    by (rule schema_ensure_initialised) (rule schema_ensure_sentinel)
  show "schema_ensure s = s" if "cell_get_value s 1 1 \<noteq> None"
    using that by (rule schema_ensure_initialised)
  show "journal (schema_ensure s) = journal s" if "cell_get_value s 1 1 \<noteq> None"
    using that by (simp add: schema_ensure_initialised)
  show "journal (schema_ensure (schema_ensure s)) =
          journal s @ [SetText 1 1 ''Timestamp (UTC)'', SetText 2 1 ''BTC Price (USD)'',
                       ApplyStyle (range_init 1 1 2 1) (set_font_bold style_new 1)]"
    if "cell_get_value s 1 1 = None"
    unfolding twice using that
    by (simp add: schema_ensure_def cell_set_text_def apply_style_def Let_def)
qed

theorem schema_ensure_idempotent_witness:
  "schema_ensure (schema_ensure (new_sheet ''Sheet'')) = schema_ensure (new_sheet ''Sheet'')
   \<and> cell_get_value (new_sheet ''Sheet'') 1 1 = None
   \<and> journal (schema_ensure (schema_ensure (new_sheet ''Sheet''))) =
        [SetText 1 1 ''Timestamp (UTC)'', SetText 2 1 ''BTC Price (USD)'',
         ApplyStyle (range_init 1 1 2 1) (set_font_bold style_new 1)]
   \<and> cell_get_value (sheet_with_rows 128 4) 1 1 \<noteq> None
   \<and> schema_ensure (sheet_with_rows 128 4) = sheet_with_rows 128 4
   \<and> journal (schema_ensure (sheet_with_rows 128 4)) = journal (sheet_with_rows 128 4)"
proof -
  have empty: "cell_get_value (new_sheet ''Sheet'') 1 1 = None"
    by (simp add: new_sheet_def cell_get_value_def)
  have fresh: "journal (new_sheet ''Sheet'') = []"
    by (simp add: new_sheet_def)
  have titled: "cell_get_value (sheet_with_rows 128 4) 1 1 \<noteq> None"
    by (simp add: sheet_with_rows_def cell_get_value_def)
  note first = schema_ensure_idempotent [of "new_sheet ''Sheet''"]
  note again = schema_ensure_idempotent [of "sheet_with_rows 128 4"]
  have "journal (schema_ensure (schema_ensure (new_sheet ''Sheet''))) =
          journal (new_sheet ''Sheet'') @
            [SetText 1 1 ''Timestamp (UTC)'', SetText 2 1 ''BTC Price (USD)'',
             ApplyStyle (range_init 1 1 2 1) (set_font_bold style_new 1)]"
    using first empty by blast
  then have written: "journal (schema_ensure (schema_ensure (new_sheet ''Sheet''))) =
          [SetText 1 1 ''Timestamp (UTC)'', SetText 2 1 ''BTC Price (USD)'',
           ApplyStyle (range_init 1 1 2 1) (set_font_bold style_new 1)]"
    unfolding fresh by simp
  have kept: "schema_ensure (sheet_with_rows 128 4) = sheet_with_rows 128 4
      \<and> journal (schema_ensure (sheet_with_rows 128 4)) = journal (sheet_with_rows 128 4)"
    using again titled by blast
  show ?thesis
    using first written kept empty titled by blast
qed

section \<open>Opening and saving\<close>

text \<open>
  C3. Whatever the workbook and the target (the workbook's own URI, or that of a file
  name given), when the save operation reports failure \<^verbatim>\<open>wb_save\<close> ends with the
  \<open>IOError\<close> whose message is \<^verbatim>\<open>Failed to save workbook\<close>, and when it reports success
  \<^verbatim>\<open>wb_save\<close> returns with no error.
\<close>

theorem wb_save_error_contract:
  "(\<not> fst (save_as w (WorkbookView wb) (target_uri w wb filename)) \<longrightarrow>
      fst (wb_save w wb filename) = Inl (IOError ''Failed to save workbook''))
   \<and> (fst (save_as w (WorkbookView wb) (target_uri w wb filename)) \<longrightarrow>
      fst (wb_save w wb filename) = Inr ())"
  by (simp add: wb_save_def Let_def split: prod.splits)

theorem wb_save_error_contract_witness:
  "\<not> fst (save_as (empty_world False) (WorkbookView (new_with_sheets 1))
            (target_uri (empty_world False) (new_with_sheets 1) (Some ''a.gnumeric'')))
   \<and> fst (wb_save (empty_world False) (new_with_sheets 1) (Some ''a.gnumeric'')) =
        Inl (IOError ''Failed to save workbook'')
   \<and> fst (save_as (empty_world True) (WorkbookView (new_with_sheets 1))
            (target_uri (empty_world True) (new_with_sheets 1) None))
   \<and> fst (wb_save (empty_world True) (new_with_sheets 1) None) = Inr ()"
  using wb_save_error_contract [of "empty_world False" "new_with_sheets 1" "Some ''a.gnumeric''"]
        wb_save_error_contract [of "empty_world True" "new_with_sheets 1" None]
  by (simp add: save_as_def empty_world_def)

lemma isfile_unreadable:
  "isfile (world_with c Unreadable) ''btcprices.gnumeric''"
  by (simp add: isfile_def filename_to_uri_def world_with_def empty_world_def)

text \<open>
  C6, as amended. For every path at which no regular file exists, \<^verbatim>\<open>wb_open\<close> returns
  a brand-new document with exactly one sheet whose URI is that of the path, and leaves
  the world as it was, with still no file at that URI. For every path at which a
  regular file exists and from whose URI the loader obtains a document, \<^verbatim>\<open>wb_open\<close>
  returns that in-memory document.
\<close>

theorem wb_open_contract:
  "(\<not> isfile w f \<longrightarrow>
      (case wb_open w f of
         (Inl e, w') \<Rightarrow> False
       | (Inr wb, w') \<Rightarrow>
           wb = (new_with_sheets 1)\<lparr>uri := filename_to_uri w f\<rparr> \<and> length (sheets wb) = 1 \<and>
           uri wb = filename_to_uri w f \<and> w' = w \<and> disk w' (uri wb) = None))
   \<and> (isfile w f \<and> new_from_uri w (filename_to_uri w f) = Some wbv \<longrightarrow>
        wb_open w f = (Inr (view_workbook wbv), w))"
  by (simp add: wb_open_def Let_def new_with_sheets_def isfile_def)

theorem wb_open_contract_witness:
  "\<not> isfile (empty_world True) ''btcprices.gnumeric''
   \<and> (case wb_open (empty_world True) ''btcprices.gnumeric'' of
         (Inl e, w') \<Rightarrow> False
       | (Inr wb, w') \<Rightarrow>
           length (sheets wb) = 1 \<and> uri wb = ''file:///home/user/btcprices.gnumeric'' \<and>
           w' = empty_world True \<and> disk w' (uri wb) = None)
   \<and> isfile (world_with True (Document \<lparr>uri = [], sheets = [sheet_with_rows 128 4]\<rparr>))
        ''btcprices.gnumeric''
   \<and> wb_open (world_with True (Document \<lparr>uri = [], sheets = [sheet_with_rows 128 4]\<rparr>))
        ''btcprices.gnumeric'' =
      (Inr \<lparr>uri = ''file:///home/user/btcprices.gnumeric'', sheets = [sheet_with_rows 128 4]\<rparr>,
       world_with True (Document \<lparr>uri = [], sheets = [sheet_with_rows 128 4]\<rparr>))"
proof -
  let ?d = "\<lparr>uri = [], sheets = [sheet_with_rows 128 4]\<rparr>"
  have absent: "\<not> isfile (empty_world True) ''btcprices.gnumeric''"
    by (simp add: isfile_def filename_to_uri_def empty_world_def)
  have present: "isfile (world_with True (Document ?d)) ''btcprices.gnumeric''"
    by (simp add: isfile_def filename_to_uri_def world_with_def empty_world_def)
  have name: "filename_to_uri (empty_world True) ''btcprices.gnumeric'' =
      ''file:///home/user/btcprices.gnumeric''"
    by (simp add: filename_to_uri_def empty_world_def)
  have loaded: "new_from_uri (world_with True (Document ?d))
      (filename_to_uri (world_with True (Document ?d)) ''btcprices.gnumeric'') =
      Some (WorkbookView \<lparr>uri = ''file:///home/user/btcprices.gnumeric'',
                           sheets = [sheet_with_rows 128 4]\<rparr>)"
    by (simp add: new_from_uri_def filename_to_uri_def world_with_def empty_world_def)
  have new: "case wb_open (empty_world True) ''btcprices.gnumeric'' of
         (Inl e, w') \<Rightarrow> False
       | (Inr wb, w') \<Rightarrow>
           wb = (new_with_sheets 1)\<lparr>uri := filename_to_uri (empty_world True) ''btcprices.gnumeric''\<rparr> \<and>
           length (sheets wb) = 1 \<and>
           uri wb = filename_to_uri (empty_world True) ''btcprices.gnumeric'' \<and>
           w' = empty_world True \<and> disk w' (uri wb) = None"
    by (rule wb_open_contract [THEN conjunct1, THEN mp, OF absent])
  have old: "wb_open (world_with True (Document ?d)) ''btcprices.gnumeric'' =
      (Inr (view_workbook (WorkbookView \<lparr>uri = ''file:///home/user/btcprices.gnumeric'',
                                           sheets = [sheet_with_rows 128 4]\<rparr>)),
       world_with True (Document ?d))"
    by (rule wb_open_contract [THEN conjunct2, THEN mp, OF conjI, OF present loaded])
  show ?thesis
    using absent present new old
    by (auto simp: name view_workbook_def split: prod.splits sum.splits)
qed

text \<open>
  C6 as stated fails where a regular file exists that the loader cannot read: no view
  comes back, and \<^verbatim>\<open>wb_open\<close> ends with an error instead of a document.
\<close>

theorem wb_open_unreadable_counterexample:
  "isfile (world_with True Unreadable) ''btcprices.gnumeric''
   \<and> fst (wb_open (world_with True Unreadable) ''btcprices.gnumeric'') = Inl AttributeError"
  using isfile_unreadable [of True]
  by (simp add: wb_open_def new_from_uri_def filename_to_uri_def world_with_def empty_world_def)

section \<open>The price format\<close>




section \<open>The timestamp\<close>

text \<open>Reading digits and printing a number are inverse to each other.\<close>

lemma str_nat_digit:
  assumes "x < 10"
  shows "str_nat x = [digit_chr x]"
  using assms by (subst str_nat.simps) simp

lemma str_nat_step:
  assumes "y < 10" "0 < x"
  shows "str_nat (10 * x + y) = str_nat x @ [digit_chr y]"
proof -
  have big: "\<not> 10 * x + y < 10" using assms by simp
  have dm: "(10 * x + y) div 10 = x" "(10 * x + y) mod 10 = y"
    using assms by simp_all
  show ?thesis
    by (subst str_nat.simps) (simp only: big dm if_False)
qed



lemma zero_chr: "CHR ''0'' = digit_chr 0"
  by (simp add: digit_chr_def)



lemma pad2_digits:
  assumes "x < 10" "y < 10"
  shows "pad2 (10 * x + y) = [digit_chr x, digit_chr y]"
proof (cases "x = 0")
  case True
  have "pad2 y = [digit_chr 0, digit_chr y]"
    unfolding pad2_def zero_chr using assms(2) str_nat_digit [of y] by simp
  then show ?thesis using True by simp
next
  case False
  then have big: "\<not> 10 * x + y < 10" by simp
  have "str_nat (10 * x + y) = str_nat x @ [digit_chr y]"
    using assms(2) False by (intro str_nat_step) simp_all
  also have "\<dots> = [digit_chr x, digit_chr y]"
    using str_nat_digit [OF assms(1)] by simp
  finally show ?thesis
    unfolding pad2_def using big by (simp only: if_False)
qed


lemma str_nat_digits4:
  assumes "a < 10" "b < 10" "c < 10" "d < 10" "0 < a"
  shows "str_nat (10 * (10 * (10 * a + b) + c) + d) =
         [digit_chr a, digit_chr b, digit_chr c, digit_chr d]"
proof -
  have "str_nat (10 * (10 * (10 * a + b) + c) + d) =
        str_nat (10 * (10 * a + b) + c) @ [digit_chr d]"
    using assms by (intro str_nat_step) simp_all
  also have "str_nat (10 * (10 * a + b) + c) = str_nat (10 * a + b) @ [digit_chr c]"
    using assms by (intro str_nat_step) simp_all
  also have "str_nat (10 * a + b) = str_nat a @ [digit_chr b]"
    using assms by (intro str_nat_step) simp_all
  also have "str_nat a = [digit_chr a]"
    using assms(1) by (rule str_nat_digit)
  finally show ?thesis by simp
qed


lemma strftime_fields:
  "strftime dt ''%Y-%m-%d %H:%M:%S'' =
     str_nat (dt_year dt) @ ''-'' @ pad2 (dt_month dt) @ ''-'' @ pad2 (dt_day dt) @ '' '' @
     pad2 (dt_hour dt) @ '':'' @ pad2 (dt_minute dt) @ '':'' @ pad2 (dt_second dt)"
  by (simp add: directive_def)



text \<open>The text that the format string yields, digit by digit.\<close>

lemma pad2_two:
  assumes "n < 100"
  shows "pad2 n = [digit_chr (n div 10), digit_chr (n mod 10)]"
proof -
  have "pad2 (10 * (n div 10) + n mod 10) = [digit_chr (n div 10), digit_chr (n mod 10)]"
    using assms by (intro pad2_digits) simp_all
  then show ?thesis by simp
qed

lemma str_nat_four:
  assumes "1000 \<le> n" and "n \<le> 9999"
  shows "str_nat n = [digit_chr (n div 1000), digit_chr (n div 100 mod 10),
                      digit_chr (n div 10 mod 10), digit_chr (n mod 10)]"
proof -
  have hundreds: "n div 100 = n div 10 div 10"
    using div_mult2_eq [of n 10 10] by simp
  have thousands: "n div 1000 = n div 10 div 10 div 10"
    using div_mult2_eq [of n 100 10] hundreds by simp
  define a b c d where "a = n div 10 div 10 div 10" and "b = n div 10 div 10 mod 10"
    and "c = n div 10 mod 10" and "d = n mod 10"
  have n1: "n = 10 * (n div 10) + d"
    unfolding d_def by simp
  have n2: "n div 10 = 10 * (n div 10 div 10) + c"
    unfolding c_def by simp
  have n3: "n div 10 div 10 = 10 * a + b"
    unfolding a_def b_def by simp
  have n: "n = 10 * (10 * (10 * a + b) + c) + d"
    using n1 n2 n3 by simp
  have small: "a < 10" "b < 10" "c < 10" "d < 10"
    unfolding a_def b_def c_def d_def thousands [symmetric] using assms(2) by simp_all
  have pos: "0 < a"
    unfolding a_def thousands [symmetric] using assms(1) by simp
  have "str_nat (10 * (10 * (10 * a + b) + c) + d) =
          [digit_chr a, digit_chr b, digit_chr c, digit_chr d]"
    using small pos by (rule str_nat_digits4)
  then have res: "str_nat n = [digit_chr a, digit_chr b, digit_chr c, digit_chr d]"
    by (simp only: n [symmetric])
  show ?thesis
    unfolding res a_def b_def c_def d_def thousands hundreds by (rule refl)
qed

lemma strftime_digits:
  assumes "1000 \<le> dt_year dt" and "dt_year dt \<le> 9999" and "dt_month dt < 100"
      and "dt_day dt < 100" and "dt_hour dt < 100" and "dt_minute dt < 100"
      and "dt_second dt < 100"
  shows "strftime dt ''%Y-%m-%d %H:%M:%S'' =
           [digit_chr (dt_year dt div 1000), digit_chr (dt_year dt div 100 mod 10),
            digit_chr (dt_year dt div 10 mod 10), digit_chr (dt_year dt mod 10), CHR ''-'',
            digit_chr (dt_month dt div 10), digit_chr (dt_month dt mod 10), CHR ''-'',
            digit_chr (dt_day dt div 10), digit_chr (dt_day dt mod 10), CHR '' '',
            digit_chr (dt_hour dt div 10), digit_chr (dt_hour dt mod 10), CHR '':'',
            digit_chr (dt_minute dt div 10), digit_chr (dt_minute dt mod 10), CHR '':'',
            digit_chr (dt_second dt div 10), digit_chr (dt_second dt mod 10)]"
  unfolding strftime_fields str_nat_four [OF assms(1,2)] pad2_two [OF assms(3)]
    pad2_two [OF assms(4)] pad2_two [OF assms(5)] pad2_two [OF assms(6)] pad2_two [OF assms(7)]
  by simp

text \<open>What a parsed timestamp holds is a date and a time of day.\<close>

lemma dateutil_parse_checked:
  assumes "dateutil_parse t = Inr dt"
  shows "1 \<le> dt_year dt \<and> dt_year dt \<le> 9999 \<and> 1 \<le> dt_month dt \<and> dt_month dt \<le> 12 \<and>
         1 \<le> dt_day dt \<and> dt_day dt \<le> 31 \<and>
         dt_hour dt \<le> 23 \<and> dt_minute dt \<le> 59 \<and> dt_second dt \<le> 59"
proof -
  obtain dt' where c: "checked dt' = Inr dt"
    using assms unfolding dateutil_parse_def by (auto split: option.splits)
  have days: "days_in_month y m \<le> 31" for y m
    by (simp add: days_in_month_def)
  from c have same: "dt' = dt"
    unfolding checked_def by (simp split: if_splits)
  show ?thesis
    using c days [of "dt_year dt" "dt_month dt"] unfolding same checked_def
    by (auto split: if_splits intro: order_trans)
qed

lemma parsed_strftime_digits:
  assumes "dateutil_parse t = Inr dt" and "1900 \<le> dt_year dt"
  shows "strftime dt ''%Y-%m-%d %H:%M:%S'' =
           [digit_chr (dt_year dt div 1000), digit_chr (dt_year dt div 100 mod 10),
            digit_chr (dt_year dt div 10 mod 10), digit_chr (dt_year dt mod 10), CHR ''-'',
            digit_chr (dt_month dt div 10), digit_chr (dt_month dt mod 10), CHR ''-'',
            digit_chr (dt_day dt div 10), digit_chr (dt_day dt mod 10), CHR '' '',
            digit_chr (dt_hour dt div 10), digit_chr (dt_hour dt mod 10), CHR '':'',
            digit_chr (dt_minute dt div 10), digit_chr (dt_minute dt mod 10), CHR '':'',
            digit_chr (dt_second dt div 10), digit_chr (dt_second dt mod 10)]"
  using dateutil_parse_checked [OF assms(1)] assms(2)
  by (intro strftime_digits) simp_all



text \<open>The parser on timestamps in each of the layouts.\<close>

lemmas parser_defs =
  dateutil_parse_def parse_iso8601_def parse_date_def parse_time_def read_field_def
  skip_fraction_def is_zone_def checked_def read_nat_def is_digit_def digit_val_def
  days_in_month_def is_leap_def

lemma dateutil_parse_example:
  "dateutil_parse ''2021-06-01T14:23:05Z'' =
     Inr \<lparr>dt_year = 2021, dt_month = 6, dt_day = 1, dt_hour = 14, dt_minute = 23, dt_second = 5\<rparr>"
  by (simp add: parser_defs)



lemma dateutil_parse_minutes:
  "dateutil_parse ''2021-06-01T14:23Z'' =
     Inr \<lparr>dt_year = 2021, dt_month = 6, dt_day = 1, dt_hour = 14, dt_minute = 23, dt_second = 0\<rparr>"
  by (simp add: parser_defs)





lemma write_timestamp_parsed:
  assumes "dateutil_parse t = Inr dt" and "1900 \<le> dt_year dt"
  shows "write_timestamp s (Some r) t =
           Inr (cell_set_text s 1 r (strftime dt ''%Y-%m-%d %H:%M:%S''))"
  using assms by (simp add: write_timestamp_def py_strftime_def)

lemma strftime_example:
  "strftime \<lparr>dt_year = 2021, dt_month = 6, dt_day = 1, dt_hour = 14, dt_minute = 23, dt_second = 5\<rparr>
     ''%Y-%m-%d %H:%M:%S'' = ''2021-06-01 14:23:05''"
proof -
  have "(1900 :: nat) \<le> dt_year \<lparr>dt_year = 2021, dt_month = 6, dt_day = 1, dt_hour = 14,
                                   dt_minute = 23, dt_second = 5\<rparr>"
    by simp
  note digits = parsed_strftime_digits [OF dateutil_parse_example this]
  show ?thesis
    unfolding digits by (simp add: digit_chr_def)
qed




section \<open>The price\<close>

lemma replace_from_remove:
  "replace_from [g] [] 0 s = filter (\<lambda>c. c \<noteq> g) s"
  by (induction s) simp_all

lemma replace_from_same:
  "replace_from [d] [d] 0 s = s"
  by (induction s) simp_all

lemma atof_single_separator:
  assumes "thousands_sep loc = [g]" and "decimal_point loc = ''.''"
  shows "atof loc rate = py_float (filter (\<lambda>c. c \<noteq> g) rate)"
  using assms by (simp add: atof_def str_replace_def replace_from_remove replace_from_same)

lemma parse_decimal_example:
  "parse_decimal ''12345.67'' = Some (False, 1234567, 2)"
  by (simp add: parse_decimal_def is_digit_def digit_val_def)

lemma floor_log2_example: "floor_log2 1234567 100 = 13"
  by (simp add: floor_log2_def bit_length.simps)

lemma round_half_even_example:
  "round_half_even 678710385884266496 100 = 6787103858842665"
  by (simp add: round_half_even_def Let_def)

lemma round_binary64_example:
  "round_binary64 1234567 100 = Finite (6787103858842665 / 2 ^ 39)"
  by (simp add: round_binary64_def floor_log2_example round_half_even_example scale2_def Let_def)

lemma py_float_example:
  "py_float ''12345.67'' = Inr (Finite (6787103858842665 / 2 ^ 39))"
  using round_binary64_example by (simp add: py_float_def parse_decimal_example)

lemma atof_example:
  assumes "thousands_sep loc = '',''" and "decimal_point loc = ''.''"
  shows "atof loc ''12,345.67'' = Inr (Finite (6787103858842665 / 2 ^ 39))"
  unfolding atof_single_separator [OF assms] using py_float_example by simp

lemma half_ulp_example:
  "\<bar>6787103858842665 / 2 ^ 39 - (1234567 / 100 :: rat)\<bar> \<le> 1 / 2 ^ 40"
  by simp

lemma write_price_parsed:
  assumes "atof loc rate = Inr x"
  shows "write_price s (Some r) loc rate = Inr (cell_set_value s 2 r (VFloat x))"
  using assms by (simp add: write_price_def new_float_def)

text \<open>
  C5. The rate is parsed by \<^verbatim>\<open>locale.atof\<close> and stored in column 2 of the target row
  by \<^verbatim>\<open>cell_set_value\<close> as a float value, never as entered text, and no other cell
  changes. Under a locale with a one-character grouping separator and a dot as decimal
  point, the parsed number is that of the string without its separators. In particular,
  with the comma as grouping separator, \<^verbatim>\<open>12,345.67\<close> gives a finite float within
  \<open>2\<^sup>-\<^sup>4\<^sup>0\<close>, half a unit in the last place, of 12345.67.
\<close>

theorem write_price_typed_number:
  "(atof loc rate = Inr x \<longrightarrow>
      (case write_price s (Some r) loc rate of
         Inl e \<Rightarrow> False
       | Inr s' \<Rightarrow>
           cell_get_value s' 2 r = Some (VFloat x) \<and>
           (\<forall>t. cell_get_value s' 2 r \<noteq> Some (Entered t)) \<and>
           journal s' = journal s @ [SetValue 2 r (VFloat x)] \<and>
           (\<forall>p. p \<noteq> (2, r) \<longrightarrow> cells s' p = cells s p)))
   \<and> (thousands_sep loc = [g] \<and> decimal_point loc = ''.'' \<longrightarrow>
        atof loc rate = py_float (filter (\<lambda>c. c \<noteq> g) rate))
   \<and> (thousands_sep loc = '','' \<and> decimal_point loc = ''.'' \<longrightarrow>
        (case atof loc ''12,345.67'' of
           Inr (Finite v) \<Rightarrow> \<bar>v - 1234567 / 100\<bar> \<le> 1 / 2 ^ 40
         | _ \<Rightarrow> False))"
proof (intro conjI impI)
  assume "atof loc rate = Inr x"
  then show "case write_price s (Some r) loc rate of
         Inl e \<Rightarrow> False
       | Inr s' \<Rightarrow>
           cell_get_value s' 2 r = Some (VFloat x) \<and>
           (\<forall>t. cell_get_value s' 2 r \<noteq> Some (Entered t)) \<and>
           journal s' = journal s @ [SetValue 2 r (VFloat x)] \<and>
           (\<forall>p. p \<noteq> (2, r) \<longrightarrow> cells s' p = cells s p)"
    by (simp add: write_price_parsed cell_set_value_def cell_get_value_def)
next
  assume "thousands_sep loc = [g] \<and> decimal_point loc = ''.''"
  then show "atof loc rate = py_float (filter (\<lambda>c. c \<noteq> g) rate)"
    by (simp add: atof_single_separator)
next
  assume "thousands_sep loc = '','' \<and> decimal_point loc = ''.''"
  then have "atof loc ''12,345.67'' = Inr (Finite (6787103858842665 / 2 ^ 39))"
    by (simp add: atof_example)
  then show "case atof loc ''12,345.67'' of
           Inr (Finite v) \<Rightarrow> \<bar>v - 1234567 / 100\<bar> \<le> 1 / 2 ^ 40
         | _ \<Rightarrow> False"
    using half_ulp_example by (simp only: sum.case pyfloat.case)
qed

theorem write_price_typed_number_witness:
  "atof en_US ''12,345.67'' = Inr (Finite (6787103858842665 / 2 ^ 39))
   \<and> thousands_sep en_US = '','' \<and> decimal_point en_US = ''.''
   \<and> (case write_price (sheet_with_rows 128 4) (Some 5) en_US ''12,345.67'' of
         Inl e \<Rightarrow> False
       | Inr s' \<Rightarrow>
           cell_get_value s' 2 5 = Some (VFloat (Finite (6787103858842665 / 2 ^ 39))) \<and>
           journal s' = [SetValue 2 5 (VFloat (Finite (6787103858842665 / 2 ^ 39)))] \<and>
           cell_get_value s' 1 5 = None)
   \<and> atof en_US ''12,345.67'' = py_float ''12345.67''
   \<and> (case atof en_US ''12,345.67'' of
         Inr (Finite v) \<Rightarrow> \<bar>v - 1234567 / 100\<bar> \<le> 1 / 2 ^ 40
       | _ \<Rightarrow> False)"
proof -
  have sep: "thousands_sep en_US = '',''" and dot: "decimal_point en_US = ''.''"
    by (simp_all add: en_US_def)
  have parsed: "atof en_US ''12,345.67'' = Inr (Finite (6787103858842665 / 2 ^ 39))"
    using sep dot by (rule atof_example)
  note inst = write_price_typed_number [where loc = en_US and rate = "''12,345.67''"
      and x = "Finite (6787103858842665 / 2 ^ 39)" and s = "sheet_with_rows 128 4" and r = 5
      and g = "CHR '',''"]
  have written: "case write_price (sheet_with_rows 128 4) (Some 5) en_US ''12,345.67'' of
         Inl e \<Rightarrow> False
       | Inr s' \<Rightarrow>
           cell_get_value s' 2 5 = Some (VFloat (Finite (6787103858842665 / 2 ^ 39))) \<and>
           (\<forall>t. cell_get_value s' 2 5 \<noteq> Some (Entered t)) \<and>
           journal s' = journal (sheet_with_rows 128 4) @
             [SetValue 2 5 (VFloat (Finite (6787103858842665 / 2 ^ 39)))] \<and>
           (\<forall>p. p \<noteq> (2, 5) \<longrightarrow> cells s' p = cells (sheet_with_rows 128 4) p)"
    by (rule inst [THEN conjunct1, THEN mp, OF parsed])
  have grouped: "atof en_US ''12,345.67'' = py_float (filter (\<lambda>c. c \<noteq> CHR '','') ''12,345.67'')"
    by (rule inst [THEN conjunct2, THEN conjunct1, THEN mp]) (simp add: sep dot)
  have near: "case atof en_US ''12,345.67'' of
         Inr (Finite v) \<Rightarrow> \<bar>v - 1234567 / 100\<bar> \<le> 1 / 2 ^ 40
       | _ \<Rightarrow> False"
    by (rule inst [THEN conjunct2, THEN conjunct2, THEN mp]) (simp add: sep dot)
  have stored: "case write_price (sheet_with_rows 128 4) (Some 5) en_US ''12,345.67'' of
         Inl e \<Rightarrow> False
       | Inr s' \<Rightarrow>
           cell_get_value s' 2 5 = Some (VFloat (Finite (6787103858842665 / 2 ^ 39))) \<and>
           journal s' = [SetValue 2 5 (VFloat (Finite (6787103858842665 / 2 ^ 39)))] \<and>
           cell_get_value s' 1 5 = None"
    using written
    by (auto simp: sheet_with_rows_def cell_get_value_def split: sum.splits)
  have plain: "filter (\<lambda>c. c \<noteq> CHR '','') ''12,345.67'' = ''12345.67''"
    by simp
  show ?thesis
    using parsed sep dot stored grouped [unfolded plain] near by (intro conjI)
qed

section \<open>The workflow on the sheet\<close>

lemma ensure_name_frame:
  "rows (ensure_name s) = rows s" "cells (ensure_name s) = cells s"
  "styles (ensure_name s) = styles s"
  by (simp_all add: ensure_name_def set_name_def)

lemma schema_ensure_rows:
  "rows (schema_ensure s) = rows s"
  by (simp add: schema_ensure_def cell_set_text_def apply_style_def Let_def)

lemma schema_ensure_below:
  assumes "r \<noteq> 1"
  shows "cell_get_value (schema_ensure s) c r = cell_get_value s c r"
  using assms
  by (simp add: schema_ensure_def cell_set_text_def apply_style_def cell_get_value_def Let_def)

lemma ensure_name_value:
  "cell_get_value (ensure_name s) c r = cell_get_value s c r"
  by (simp add: cell_get_value_def ensure_name_frame)

lemma prepared_frame:
  "rows (schema_ensure (ensure_name s)) = rows s"
  "r \<noteq> 1 \<Longrightarrow> cell_get_value (schema_ensure (ensure_name s)) c r = cell_get_value s c r"
  by (simp_all add: schema_ensure_rows schema_ensure_below ensure_name_frame ensure_name_value)

lemma for_rows_cong:
  assumes "\<forall>r\<in>set xs. cell_get_value s 1 r = cell_get_value s' 1 r"
  shows "for_rows s xs row = for_rows s' xs row"
  using assms by (induction xs arbitrary: row) auto

lemma find_row_prepared:
  "find_row (schema_ensure (ensure_name s)) = find_row s"
  unfolding find_row_def prepared_frame(1)
  by (rule for_rows_cong) (simp add: py_range_def prepared_frame(2))

lemma find_row_in_range:
  assumes "find_row s = Some r"
  shows "2 \<le> r \<and> r < rows s"
proof -
  have "for_rows s xs row = Some r \<Longrightarrow> r \<in> set xs \<or> row = Some r" for xs row
    by (induction xs arbitrary: row) (auto split: if_splits)
  from this [of "py_range 2 (rows s)" None] assms show ?thesis
    by (auto simp: find_row_def py_range_def)
qed

lemma write_row_done:
  assumes "time_updated q = Some t" and "dateutil_parse t = Inr dt" and "1900 \<le> dt_year dt"
      and "usd_rate q = Some rate" and "atof loc rate = Inr x"
  shows "write_row s (Some r) q loc =
           (Inr (),
            apply_style
              (cell_set_value
                 (cell_set_text s 1 r (strftime dt ''%Y-%m-%d %H:%M:%S''))
                 2 r (VFloat x))
              (range_init 2 r 2 r) (set_format_text style_new ''$0,000''))"
  using assms(1,4,5)
  by (simp add: write_row_def write_timestamp_parsed [OF assms(2,3)] write_price_parsed
      format_price_def del: strftime.simps)

lemma write_row_cells:
  assumes "time_updated q = Some t" and "dateutil_parse t = Inr dt" and "1900 \<le> dt_year dt"
      and "usd_rate q = Some rate" and "atof loc rate = Inr x"
  shows "case write_row s (Some r) q loc of
           (Inl e, s') \<Rightarrow> False
         | (Inr u, s') \<Rightarrow>
             cell_get_value s' 1 r = Some (Entered (strftime dt ''%Y-%m-%d %H:%M:%S'')) \<and>
             cell_get_value s' 2 r = Some (VFloat x) \<and>
             (\<forall>c r'. r' \<noteq> r \<longrightarrow> cell_get_value s' c r' = cell_get_value s c r')"
  unfolding write_row_done [OF assms]
  by (simp add: apply_style_def cell_set_value_def cell_set_text_def cell_get_value_def)

lemma update_sheet_writes:
  assumes "find_row s = Some r"
      and "time_updated q = Some t" and "dateutil_parse t = Inr dt" and "1900 \<le> dt_year dt"
      and "usd_rate q = Some rate" and "atof loc rate = Inr x"
  shows "case update_sheet s (Inr q) loc of
           (Inl e, s') \<Rightarrow> False
         | (Inr u, s') \<Rightarrow>
             cell_get_value s' 1 r = Some (Entered (strftime dt ''%Y-%m-%d %H:%M:%S'')) \<and>
             cell_get_value s' 2 r = Some (VFloat x) \<and>
             (\<forall>c r'. r' \<noteq> r \<and> r' \<noteq> 1 \<longrightarrow> cell_get_value s' c r' = cell_get_value s c r')"
proof -
  let ?p = "schema_ensure (ensure_name s)"
  have u: "update_sheet s (Inr q) loc = write_row ?p (Some r) q loc"
    using assms(1) by (simp add: update_sheet_def Let_def find_row_prepared)
  show ?thesis
    unfolding u using write_row_cells [OF assms(2-6), where s = ?p and r = r]
    by (auto simp: prepared_frame(2) split: prod.splits sum.splits)
qed

text \<open>
  A payload that lacks the time ends the run at line 152, before any write of lines 152
  to 175; one that holds the time and lacks the rate ends it at line 167, with the
  timestamp of line 158 already in the sheet.
\<close>

lemma update_sheet_missing_time:
  assumes "time_updated q = None"
  shows "update_sheet s (Inr q) loc = (Inl KeyError, schema_ensure (ensure_name s))"
  using assms by (simp add: update_sheet_def write_row_def Let_def)

lemma update_sheet_missing_rate:
  assumes "find_row s = Some r"
      and "time_updated q = Some t" and "dateutil_parse t = Inr dt" and "1900 \<le> dt_year dt"
      and "usd_rate q = None"
  shows "update_sheet s (Inr q) loc =
           (Inl KeyError,
            cell_set_text (schema_ensure (ensure_name s)) 1 r (strftime dt ''%Y-%m-%d %H:%M:%S''))"
  using assms(1,2,5)
  by (simp add: update_sheet_def Let_def find_row_prepared write_row_def
      write_timestamp_parsed [OF assms(3,4)] del: strftime.simps)

lemma demo_quote_parsed:
  "dateutil_parse ''2021-06-01T14:23:05Z'' =
     Inr \<lparr>dt_year = 2021, dt_month = 6, dt_day = 1, dt_hour = 14, dt_minute = 23, dt_second = 5\<rparr>"
  "atof en_US ''12,345.67'' = Inr (Finite (6787103858842665 / 2 ^ 39))"
  "strftime \<lparr>dt_year = 2021, dt_month = 6, dt_day = 1, dt_hour = 14, dt_minute = 23, dt_second = 5\<rparr>
     ''%Y-%m-%d %H:%M:%S'' = ''2021-06-01 14:23:05''"
  "time_updated demo_quote = Some ''2021-06-01T14:23:05Z''"
  "usd_rate demo_quote = Some ''12,345.67''"
  "1900 \<le> dt_year \<lparr>dt_year = 2021, dt_month = 6, dt_day = 1, dt_hour = 14, dt_minute = 23,
                       dt_second = 5\<rparr>"
  using atof_example
  by (simp_all only: dateutil_parse_example strftime_example en_US_def)
     (simp_all add: demo_quote_def)

text \<open>
  C9. In a sheet of more than two rows in which every row from 2 to \<open>rows - 1\<close> holds a
  value in column 1, the scan finds no empty cell, runs out, and leaves the row index
  \<open>rows - 1\<close>; the timestamp and the price that follow are written into that row, the
  last one scanned, which held a value before.
\<close>

theorem scan_exhausted_overwrites_last_row:
  assumes "2 < rows s"
      and "\<forall>r. 2 \<le> r \<and> r < rows s \<longrightarrow> cell_get_value s 1 r \<noteq> None"
      and "time_updated q = Some t" and "dateutil_parse t = Inr dt" and "1900 \<le> dt_year dt"
      and "usd_rate q = Some rate" and "atof loc rate = Inr x"
  shows "find_row s = Some (rows s - 1)
     \<and> find_row (schema_ensure (ensure_name s)) = Some (rows s - 1)
     \<and> cell_get_value s 1 (rows s - 1) \<noteq> None
     \<and> (case update_sheet s (Inr q) loc of
           (Inl e, s') \<Rightarrow> False
         | (Inr u, s') \<Rightarrow>
             cell_get_value s' 1 (rows s - 1) =
               Some (Entered (strftime dt ''%Y-%m-%d %H:%M:%S'')) \<and>
             cell_get_value s' 2 (rows s - 1) = Some (VFloat x))"
proof -
  have last: "find_row s = Some (rows s - 1)"
    using assms(1,2) by (rule find_row_exhausted)
  have held: "cell_get_value s 1 (rows s - 1) \<noteq> None"
    using assms(1,2) by simp
  have "case update_sheet s (Inr q) loc of
           (Inl e, s') \<Rightarrow> False
         | (Inr u, s') \<Rightarrow>
             cell_get_value s' 1 (rows s - 1) =
               Some (Entered (strftime dt ''%Y-%m-%d %H:%M:%S'')) \<and>
             cell_get_value s' 2 (rows s - 1) = Some (VFloat x)"
    using update_sheet_writes [OF last assms(3-7)]
    by (auto split: prod.splits sum.splits)
  then show ?thesis
    using last held by (simp add: find_row_prepared)
qed

theorem scan_exhausted_overwrites_last_row_witness:
  "2 < rows (sheet_with_rows 128 127)
   \<and> \<not> (\<exists>r. 2 \<le> r \<and> r < rows (sheet_with_rows 128 127) \<and>
             cell_get_value (sheet_with_rows 128 127) 1 r = None)
   \<and> find_row (sheet_with_rows 128 127) = Some 127
   \<and> cell_get_value (sheet_with_rows 128 127) 1 127 = Some (Entered ''x'')
   \<and> (case update_sheet (sheet_with_rows 128 127) (Inr demo_quote) en_US of
         (Inl e, s') \<Rightarrow> False
       | (Inr u, s') \<Rightarrow>
           cell_get_value s' 1 127 = Some (Entered ''2021-06-01 14:23:05'') \<and>
           cell_get_value s' 2 127 = Some (VFloat (Finite (6787103858842665 / 2 ^ 39))))"
proof -
  let ?s = "sheet_with_rows 128 127"
  have size: "rows ?s = 128"
    by (simp add: sheet_with_rows_def)
  have many: "2 < rows ?s"
    by (simp add: size)
  have full: "\<forall>r. 2 \<le> r \<and> r < rows ?s \<longrightarrow> cell_get_value ?s 1 r \<noteq> None"
    by (simp add: sheet_with_rows_def cell_get_value_def)
  note inst = scan_exhausted_overwrites_last_row
      [OF many full demo_quote_parsed(4,1,6,5,2)]
  have held: "cell_get_value ?s 1 127 = Some (Entered ''x'')"
    by (simp add: sheet_with_rows_def cell_get_value_def)
  have before: "(128 :: int) - 1 = 127"
    by simp
  show ?thesis
    using inst [unfolded demo_quote_parsed(3) size before] full held many
    unfolding size by simp
qed

text \<open>
  C10, as amended. The scan looks at column 1 only: the first row from index 2 whose
  column-1 cell is empty is the target row whatever its column 2 holds, and when that
  row holds a value in column 2 the new price replaces it.
\<close>

theorem first_open_row_price_overwritten:
  assumes "2 \<le> r" and "r < rows s"
      and "\<forall>r'. 2 \<le> r' \<and> r' < r \<longrightarrow> cell_get_value s 1 r' \<noteq> None"
      and "cell_get_value s 1 r = None"
      and "cell_get_value s 2 r = Some v"
      and "time_updated q = Some t" and "dateutil_parse t = Inr dt" and "1900 \<le> dt_year dt"
      and "usd_rate q = Some rate" and "atof loc rate = Inr x"
  shows "find_row (schema_ensure (ensure_name s)) = Some r
     \<and> (case update_sheet s (Inr q) loc of
           (Inl e, s') \<Rightarrow> False
         | (Inr u, s') \<Rightarrow>
             cell_get_value s' 1 r = Some (Entered (strftime dt ''%Y-%m-%d %H:%M:%S'')) \<and>
             cell_get_value s' 2 r = Some (VFloat x))"
proof -
  have target: "find_row s = Some r"
    using assms(1-4) by (rule find_row_first_empty)
  have "case update_sheet s (Inr q) loc of
           (Inl e, s') \<Rightarrow> False
         | (Inr u, s') \<Rightarrow>
             cell_get_value s' 1 r = Some (Entered (strftime dt ''%Y-%m-%d %H:%M:%S'')) \<and>
             cell_get_value s' 2 r = Some (VFloat x)"
    using update_sheet_writes [OF target assms(6-10)]
    by (auto split: prod.splits sum.splits)
  then show ?thesis
    using target by (simp add: find_row_prepared)
qed

theorem first_open_row_price_overwritten_witness:
  "cell_get_value gap_sheet 1 5 = None
   \<and> cell_get_value gap_sheet 2 5 = Some (Entered ''x'')
   \<and> \<not> (\<exists>r'. 2 \<le> r' \<and> r' < 5 \<and> cell_get_value gap_sheet 1 r' = None)
   \<and> find_row (schema_ensure (ensure_name gap_sheet)) = Some 5
   \<and> (case update_sheet gap_sheet (Inr demo_quote) en_US of
         (Inl e, s') \<Rightarrow> False
       | (Inr u, s') \<Rightarrow>
           cell_get_value s' 1 5 = Some (Entered ''2021-06-01 14:23:05'') \<and>
           cell_get_value s' 2 5 = Some (VFloat (Finite (6787103858842665 / 2 ^ 39))))"
proof -
  have low: "(2 :: int) \<le> 5" and high: "5 < rows gap_sheet"
    by (simp_all add: gap_sheet_def)
  have above: "\<forall>r'. 2 \<le> r' \<and> r' < 5 \<longrightarrow> cell_get_value gap_sheet 1 r' \<noteq> None"
    by (simp add: gap_sheet_def cell_get_value_def)
  have open5: "cell_get_value gap_sheet 1 5 = None"
    by (simp add: gap_sheet_def cell_get_value_def)
  have old: "cell_get_value gap_sheet 2 5 = Some (Entered ''x'')"
    by (simp add: gap_sheet_def cell_get_value_def)
  note inst = first_open_row_price_overwritten
      [OF low high above open5 old demo_quote_parsed(4,1,6,5,2)]
  show ?thesis
    using inst above open5 old unfolding demo_quote_parsed(3) by simp
qed

text \<open>
  C10 as stated fails on a sheet with an empty column-1 cell above the row in question.
  In the sheet whose only value is in column 2 of row 3, row 3 has an empty column-1
  cell and a value in column 2, yet the target row is row 2, and the value in column 2
  of row 3 stays.
\<close>

theorem later_open_row_counterexample:
  "cell_get_value stray_sheet 1 3 = None
   \<and> cell_get_value stray_sheet 2 3 = Some (Entered ''x'')
   \<and> find_row (schema_ensure (ensure_name stray_sheet)) = Some 2
   \<and> (case update_sheet stray_sheet (Inr demo_quote) en_US of
         (Inl e, s') \<Rightarrow> False
       | (Inr u, s') \<Rightarrow>
           cell_get_value s' 2 2 = Some (VFloat (Finite (6787103858842665 / 2 ^ 39))) \<and>
           cell_get_value s' 2 3 = Some (Entered ''x''))"
proof -
  have target: "find_row stray_sheet = Some 2"
    by (rule find_row_first_empty) (simp_all add: stray_sheet_def cell_get_value_def)
  note w = update_sheet_writes [OF target demo_quote_parsed(4,1,6,5,2)]
  have stays: "cell_get_value stray_sheet 2 3 = Some (Entered ''x'')"
    and open3: "cell_get_value stray_sheet 1 3 = None"
    by (simp_all add: stray_sheet_def cell_get_value_def)
  have "case update_sheet stray_sheet (Inr demo_quote) en_US of
         (Inl e, s') \<Rightarrow> False
       | (Inr u, s') \<Rightarrow>
           cell_get_value s' 2 2 = Some (VFloat (Finite (6787103858842665 / 2 ^ 39))) \<and>
           cell_get_value s' 2 3 = Some (Entered ''x'')"
    using w stays by (auto split: prod.splits sum.splits)
  then show ?thesis
    using target stays open3 by (simp add: find_row_prepared)
qed

section \<open>A failed save\<close>

lemma wb_open_world:
  "snd (wb_open w f) = w"
  by (simp add: wb_open_def Let_def split: option.splits)

lemma update_sheet_success:
  assumes "update_sheet s response loc = (Inr (), s1)"
  shows "\<exists>q r t x. response = Inr q \<and> find_row (schema_ensure (ensure_name s)) = Some r \<and>
           cell_get_value s1 1 r = Some (Entered t) \<and> cell_get_value s1 2 r = Some (VFloat x)"
  using assms
  by (auto simp: update_sheet_def Let_def write_row_def write_timestamp_def write_price_def
      format_price_def new_float_def apply_style_def cell_set_value_def cell_set_text_def
      cell_get_value_def split: sum.splits option.splits)

lemma main_steps:
  assumes "fst (wb_open w ''btcprices.gnumeric'') = Inr wb"
      and "sheet_by_index wb 0 = Some sheet0"
      and "update_sheet sheet0 response loc = (Inr (), sheet1)"
  shows "main w response loc =
           (fst (wb_save w (wb\<lparr>sheets := (sheets wb)[0 := sheet1]\<rparr>) None),
            Some (wb\<lparr>sheets := (sheets wb)[0 := sheet1]\<rparr>),
            snd (wb_save w (wb\<lparr>sheets := (sheets wb)[0 := sheet1]\<rparr>) None))"
proof -
  have "wb_open w ''btcprices.gnumeric'' = (Inr wb, w)"
    using assms(1) wb_open_world [of w "''btcprices.gnumeric''"]
    by (cases "wb_open w ''btcprices.gnumeric''") simp
  then show ?thesis
    using assms(2,3) by (simp add: main_def Let_def split: prod.splits)
qed

lemma wb_save_failed:
  assumes "\<not> fst (save_as w (WorkbookView wb) (uri wb))"
  shows "wb_save w wb None = (Inl (IOError ''Failed to save workbook''), w)"
  using assms by (simp add: wb_save_def target_uri_def save_as_def Let_def split: if_splits)

text \<open>
  C8. When the run has opened the document, written the row, and the save operation
  then reports failure, \<^verbatim>\<open>main\<close> ends with the \<open>IOError\<close>; the document in memory is
  the opened one with its first sheet as the writes left it (the timestamp and the price
  are in the target row: nothing is rolled back); and the world, with every file on
  disk, is as it was before the run.
\<close>

theorem main_failed_save_keeps_mutations:
  assumes "fst (wb_open w ''btcprices.gnumeric'') = Inr wb"
      and "sheet_by_index wb 0 = Some sheet0"
      and "update_sheet sheet0 response loc = (Inr (), sheet1)"
      and "\<not> fst (save_as w (WorkbookView (wb\<lparr>sheets := (sheets wb)[0 := sheet1]\<rparr>)) (uri wb))"
  shows "main w response loc =
           (Inl (IOError ''Failed to save workbook''),
            Some (wb\<lparr>sheets := (sheets wb)[0 := sheet1]\<rparr>), w)
     \<and> disk (snd (snd (main w response loc))) = disk w
     \<and> sheet_by_index (wb\<lparr>sheets := (sheets wb)[0 := sheet1]\<rparr>) 0 = Some sheet1
     \<and> (\<exists>q r t x. response = Inr q \<and>
           find_row (schema_ensure (ensure_name sheet0)) = Some r \<and>
           cell_get_value sheet1 1 r = Some (Entered t) \<and>
           cell_get_value sheet1 2 r = Some (VFloat x))"
proof -
  let ?wb = "wb\<lparr>sheets := (sheets wb)[0 := sheet1]\<rparr>"
  have failed: "wb_save w ?wb None = (Inl (IOError ''Failed to save workbook''), w)"
    using assms(4) wb_save_failed [of w ?wb] by simp
  have run: "main w response loc = (Inl (IOError ''Failed to save workbook''), Some ?wb, w)"
    unfolding main_steps [OF assms(1-3)] failed by simp
  have first: "sheet_by_index ?wb 0 = Some sheet1"
    using assms(2) by (simp add: sheet_by_index_def split: if_splits)
  show ?thesis
    using run first update_sheet_success [OF assms(3)] by simp
qed

theorem main_failed_save_keeps_mutations_witness:
  "fst (main (world_with False (Document \<lparr>uri = [], sheets = [sheet_with_rows 128 4]\<rparr>))
          (Inr demo_quote) en_US) =
     Inl (IOError ''Failed to save workbook'')
   \<and> disk (snd (snd (main (world_with False (Document \<lparr>uri = [], sheets = [sheet_with_rows 128 4]\<rparr>))
                         (Inr demo_quote) en_US)))
        ''file:///home/user/btcprices.gnumeric'' =
      Some (Document \<lparr>uri = [], sheets = [sheet_with_rows 128 4]\<rparr>)
   \<and> cell_get_value (sheet_with_rows 128 4) 1 5 = None
   \<and> (case fst (snd (main (world_with False (Document \<lparr>uri = [], sheets = [sheet_with_rows 128 4]\<rparr>))
                        (Inr demo_quote) en_US)) of
         None \<Rightarrow> False
       | Some wb' \<Rightarrow>
           (case sheet_by_index wb' 0 of
              None \<Rightarrow> False
            | Some s' \<Rightarrow>
                cell_get_value s' 1 5 = Some (Entered ''2021-06-01 14:23:05'') \<and>
                cell_get_value s' 2 5 = Some (VFloat (Finite (6787103858842665 / 2 ^ 39)))))"
proof -
  let ?d = "\<lparr>uri = [], sheets = [sheet_with_rows 128 4]\<rparr>"
  let ?w = "world_with False (Document ?d)"
  let ?wb = "\<lparr>uri = ''file:///home/user/btcprices.gnumeric'', sheets = [sheet_with_rows 128 4]\<rparr>"
  let ?s0 = "sheet_with_rows 128 4"
  have opened: "fst (wb_open ?w ''btcprices.gnumeric'') = Inr ?wb"
    by (simp add: wb_open_def isfile_def filename_to_uri_def new_from_uri_def view_workbook_def
        world_with_def empty_world_def Let_def)
  have first: "sheet_by_index ?wb 0 = Some ?s0"
    by (simp add: sheet_by_index_def)
  have open5: "cell_get_value ?s0 1 5 = None"
    by (simp add: sheet_with_rows_def cell_get_value_def)
  have target: "find_row ?s0 = Some 5"
    using open5 by (intro find_row_first_empty) (simp_all add: sheet_with_rows_def cell_get_value_def)
  note w = update_sheet_writes [OF target demo_quote_parsed(4,1,6,5,2)]
  obtain s1 where ran: "update_sheet ?s0 (Inr demo_quote) en_US = (Inr (), s1)"
    and stamp: "cell_get_value s1 1 5 = Some (Entered ''2021-06-01 14:23:05'')"
    and price: "cell_get_value s1 2 5 = Some (VFloat (Finite (6787103858842665 / 2 ^ 39)))"
    using w unfolding demo_quote_parsed(3)
    by (cases "update_sheet ?s0 (Inr demo_quote) en_US") (auto split: sum.splits)
  have refused: "\<not> fst (save_as ?w (WorkbookView (?wb\<lparr>sheets := (sheets ?wb)[0 := s1]\<rparr>)) (uri ?wb))"
    by (simp add: save_as_def world_with_def empty_world_def)
  note inst = main_failed_save_keeps_mutations [OF opened first ran refused]
  have onfile: "disk ?w ''file:///home/user/btcprices.gnumeric'' = Some (Document ?d)"
    by (simp add: world_with_def empty_world_def)
  show ?thesis
    using inst stamp price onfile open5 by simp
qed

end
